theory Spec2Isabelle
  imports Main
begin

unbundle bit_operations_syntax

section \<open>The log handlers of web/logs.go\<close>

text \<open>
  The three HTTP handlers of \<^verbatim>\<open>web/logs.go\<close> (\<^verbatim>\<open>downloadLogs\<close>,
  \<^verbatim>\<open>fetchLogsBetweenDates\<close>, \<^verbatim>\<open>streamLogs\<close>) are embedded as state-passing
  functions. The state \<open>Exchange\<close> holds everything a handler can do to the outside:
  the response (status, header map, the sequence of writes and flushes), the
  entries it hands to the logger, and the calls it makes to its collaborators.
  The collaborators (the container client, the event generator, \<^verbatim>\<open>json.Marshal\<close>,
  \<^verbatim>\<open>time.Parse\<close>, \<^verbatim>\<open>time.Now\<close>, \<^verbatim>\<open>stdcopy.StdCopy\<close>) are the fields of
  the record \<open>Handler\<close>: each handler is a function of them.
\<close>

subsection \<open>Values\<close>

text \<open>
  A Go \<^verbatim>\<open>error\<close> value that is not nil. The handlers compare errors with
  \<^verbatim>\<open>io.EOF\<close> and \<^verbatim>\<open>context.Canceled\<close> and read the message of every other one.
\<close>

datatype error = EOF | Canceled | Failure string

fun Error_msg :: "error \<Rightarrow> string" where
  "Error_msg EOF = ''EOF''"
| "Error_msg Canceled = ''context canceled''"
| "Error_msg (Failure m) = m"

text \<open>
  Modelled from the spec: \<^verbatim>\<open>docker.StdType\<close> and its constants \<^verbatim>\<open>STDOUT\<close>,
  \<^verbatim>\<open>STDERR\<close>, \<^verbatim>\<open>STDALL\<close> are declared in package \<^verbatim>\<open>docker\<close>, which is not among
  the sources. The spec calls the mask a set over {stdout, stderr}; the handlers build
  it with \<^verbatim>\<open>|=\<close> from the zero value and test it against 0, so it is an integer
  with one bit for each stream.
\<close>

type_synonym StdType = int

definition STDOUT :: StdType where
  "STDOUT = 2"

definition STDERR :: StdType where
  "STDERR = 4"

definition STDALL :: StdType where
  "STDALL = STDOUT OR STDERR"

text \<open>
  Modelled from the spec: \<^verbatim>\<open>docker.Container\<close> and \<^verbatim>\<open>docker.LogEvent\<close> are
  declared in package \<^verbatim>\<open>docker\<close>, which is not among the sources. The records
  have the fields the handlers read. \<open>Timestamp\<close> is the event's position, the
  marker a client resumes from; the handler compares it with 0 and prints it with
  \<^verbatim>\<open>%d\<close>, so it is an integer, and nothing here depends on its width.
\<close>

record Container =
  ID :: string
  Name :: string
  Tty :: bool

record LogEvent =
  Timestamp :: int
  Message :: string

text \<open>
  \<^verbatim>\<open>time.Time\<close> as its civil fields. \<open>zero_Time\<close> is \<^verbatim>\<open>time.Time{}\<close>, January 1 of
  year 1, 00:00:00.
\<close>

record Time =
  year :: nat
  month :: nat
  day :: nat
  hour :: nat
  minute :: nat
  second :: nat

definition zero_Time :: Time where
  "zero_Time = \<lparr>year = 1, month = 1, day = 1, hour = 0, minute = 0, second = 0\<rparr>"

subsection \<open>Printing numbers and times\<close>

definition nl :: string where
  "nl = [CHR 0x0A]"

fun digits :: "nat \<Rightarrow> string" where
  "digits n =
     (if n < 10 then [''0123456789'' ! n]
      else digits (n div 10) @ [''0123456789'' ! (n mod 10)])"

declare digits.simps [simp del]

text \<open>The verb \<^verbatim>\<open>%d\<close> of \<^verbatim>\<open>fmt\<close> on a signed integer.\<close>

definition fmt_d :: "int \<Rightarrow> string" where
  "fmt_d i = (if i < 0 then ''-'' @ digits (nat (- i)) else digits (nat i))"

definition pad2 :: "nat \<Rightarrow> string" where
  "pad2 n = (if n < 10 then ''0'' @ digits n else digits n)"

definition pad4 :: "nat \<Rightarrow> string" where
  "pad4 n = replicate (4 - length (digits n)) CHR ''0'' @ digits n"

text \<open>\<^verbatim>\<open>now.Format("2006-01-02T15-04-05")\<close>.\<close>

definition Format_stamp :: "Time \<Rightarrow> string" where
  "Format_stamp t =
     pad4 (year t) @ ''-'' @ pad2 (month t) @ ''-'' @ pad2 (day t) @ ''T'' @
     pad2 (hour t) @ ''-'' @ pad2 (minute t) @ ''-'' @ pad2 (second t)"

subsection \<open>Requests\<close>

text \<open>
  The parts of \<^verbatim>\<open>*http.Request\<close> the handlers read: the route parameter
  \<^verbatim>\<open>chi.URLParam(r, "id")\<close>, the query \<^verbatim>\<open>r.URL.Query()\<close> and the header
  \<^verbatim>\<open>r.Header\<close>, both as association lists of a key and its first value.
\<close>

record Request =
  url_id :: string
  query :: "(string \<times> string) list"
  header :: "(string \<times> string) list"

definition Has :: "(string \<times> string) list \<Rightarrow> string \<Rightarrow> bool" where
  "Has vs k = (case map_of vs k of None \<Rightarrow> False | Some v \<Rightarrow> True)"

definition Get :: "(string \<times> string) list \<Rightarrow> string \<Rightarrow> string" where
  "Get vs k = (case map_of vs k of None \<Rightarrow> [] | Some v \<Rightarrow> v)"

subsection \<open>The response, the log and the calls\<close>

text \<open>
  What reaches the client, in order: a write of bytes, a flush, and the three kinds
  of output of a \<^verbatim>\<open>gzip.Writer\<close> (its header with the metadata name, comment and
  modification time; compressed data, kept as the bytes it compresses; its trailer).
\<close>

datatype out_item =
    Write string
  | Flushed
  | GzipHeader string string Time
  | GzipData string
  | GzipTrailer

datatype Level = DebugLevel | ErrorLevel

datatype call =
    CallFindContainer string
  | CallContainerLogs string string StdType
  | CallContainerLogsBetweenDates string Time Time StdType
  | CallNewEventGenerator string bool

record Exchange =
  status :: "nat option"
  headers :: "string \<Rightarrow> string list"
  body :: "out_item list"
  flusher :: bool
  logged :: "(Level \<times> string) list"
  calls :: "call list"

text \<open>A response nothing has been written to; \<open>f\<close> says whether it is an \<^verbatim>\<open>http.Flusher\<close>.\<close>

definition NewExchange :: "bool \<Rightarrow> Exchange" where
  "NewExchange f =
     \<lparr>status = None, headers = (\<lambda>k. []), body = [], flusher = f, logged = [], calls = []\<rparr>"

text \<open>The bytes of the writes, in order.\<close>

fun wire :: "out_item list \<Rightarrow> string" where
  "wire [] = []"
| "wire (Write s # os) = s @ wire os"
| "wire (x # os) = wire os"

definition StatusBadRequest :: nat where
  "StatusBadRequest = 400"

definition StatusNotFound :: nat where
  "StatusNotFound = 404"

definition StatusInternalServerError :: nat where
  "StatusInternalServerError = 500"

text \<open>
  \<^verbatim>\<open>w.WriteHeader(code)\<close>: the first call fixes the status; a later one is ignored.
  A write or a flush on a response without a status sends 200 first.
\<close>

definition WriteHeader :: "nat \<Rightarrow> Exchange \<Rightarrow> Exchange" where
  "WriteHeader code w =
     (case status w of None \<Rightarrow> w\<lparr>status := Some code\<rparr> | Some c \<Rightarrow> w)"

definition emit :: "out_item \<Rightarrow> Exchange \<Rightarrow> Exchange" where
  "emit x w = (let w = WriteHeader 200 w in w\<lparr>body := body w @ [x]\<rparr>)"

definition Fprintf :: "string \<Rightarrow> Exchange \<Rightarrow> Exchange" where
  "Fprintf s w = emit (Write s) w"

definition Flush :: "Exchange \<Rightarrow> Exchange" where
  "Flush w = emit Flushed w"

definition Set_header :: "string \<Rightarrow> string \<Rightarrow> Exchange \<Rightarrow> Exchange" where
  "Set_header k v w = w\<lparr>headers := (headers w)(k := [v])\<rparr>"

definition Add_header :: "string \<Rightarrow> string \<Rightarrow> Exchange \<Rightarrow> Exchange" where
  "Add_header k v w = w\<lparr>headers := (headers w)(k := headers w k @ [v])\<rparr>"

definition Del_header :: "string \<Rightarrow> Exchange \<Rightarrow> Exchange" where
  "Del_header k w = w\<lparr>headers := (headers w)(k := [])\<rparr>"

text \<open>\<^verbatim>\<open>http.Error(w, msg, code)\<close>.\<close>

definition http_Error :: "string \<Rightarrow> nat \<Rightarrow> Exchange \<Rightarrow> Exchange" where
  "http_Error msg code w =
     (let w = Del_header ''Content-Length'' w;
          w = Set_header ''Content-Type'' ''text/plain; charset=utf-8'' w;
          w = Set_header ''X-Content-Type-Options'' ''nosniff'' w;
          w = WriteHeader code w
      in Fprintf (msg @ nl) w)"

definition log_entry :: "Level \<Rightarrow> string \<Rightarrow> Exchange \<Rightarrow> Exchange" where
  "log_entry l m w = w\<lparr>logged := logged w @ [(l, m)]\<rparr>"

definition called :: "call \<Rightarrow> Exchange \<Rightarrow> Exchange" where
  "called c w = w\<lparr>calls := calls w @ [c]\<rparr>"

subsection \<open>The collaborators\<close>

text \<open>
  \<^verbatim>\<open>docker.NewEventGenerator(reader, tty)\<close> starts a task that sends on the channel
  \<^verbatim>\<open>Events\<close>, closes it, and may leave one value on the channel \<^verbatim>\<open>Errors\<close>. The
  generator is code of package \<^verbatim>\<open>docker\<close>; a handler sees only what the channels
  deliver, which is what the record holds: the values sent on \<^verbatim>\<open>Events\<close>, each with
  the time (nanoseconds after the generator was made) from which it can be received;
  the time at which \<^verbatim>\<open>Events\<close> is closed; and what a non-blocking receive on
  \<^verbatim>\<open>Errors\<close> finds after that: nothing ready (\<open>None\<close>), a nil error
  (\<open>Some None\<close>) or an error. A generator that never closes \<^verbatim>\<open>Events\<close> keeps
  the loops of the handlers running for ever and has no record: every statement below
  about what a handler has written at its return is about a generator that closes.
\<close>

record EventGenerator =
  Events :: "(nat \<times> LogEvent) list"
  Events_closed :: nat
  Errors :: "error option option"

record Handler =
  FindContainer :: "string \<Rightarrow> error + Container"
  ContainerLogs :: "string \<Rightarrow> string \<Rightarrow> StdType \<Rightarrow> error + string"
  ContainerLogsBetweenDates :: "string \<Rightarrow> Time \<Rightarrow> Time \<Rightarrow> StdType \<Rightarrow> error + string"
  NewEventGenerator :: "string \<Rightarrow> bool \<Rightarrow> EventGenerator"
  json_Marshal :: "LogEvent \<Rightarrow> error + string"
  time_Parse :: "string \<Rightarrow> error + Time"
  time_Now :: Time
  StdCopy :: "string \<Rightarrow> string"
  IsLevelEnabled_Debug :: bool

subsection \<open>The ticker and the select statement\<close>

definition time_Second :: nat where
  "time_Second = 1000000000"

text \<open>\<^verbatim>\<open>time.NewTicker(5 * time.Second)\<close>: the period of the ticker, in nanoseconds.\<close>

definition ticker_period :: nat where
  "ticker_period = 5 * time_Second"

text \<open>What one \<^verbatim>\<open>select\<close> of the streaming loop receives.\<close>

datatype Select = Recv LogEvent | Tick

text \<open>
  The order in which the loop's \<^verbatim>\<open>select\<close> statements fire, up to the one that finds
  \<^verbatim>\<open>Events\<close> closed. \<open>T\<close> is the time of the ticker's next tick. The handler is
  taken to spend no time between two selects, and the ticker and the generator to
  start at the same instant; where a tick and the channel are ready at the same time
  (Go chooses at random) the channel goes first.
\<close>

function select_order :: "nat \<Rightarrow> (nat \<times> LogEvent) list \<Rightarrow> nat \<Rightarrow> Select list" where
  "select_order T [] c =
     (if T < c then Tick # select_order (T + ticker_period) [] c else [])"
| "select_order T ((t, e) # es) c =
     (if T < t then Tick # select_order (T + ticker_period) ((t, e) # es) c
      else Recv e # select_order T es c)"
  by pat_completeness auto
termination
  by (relation "measures [\<lambda>(T, es, c). length es,
        \<lambda>(T, es, c). (case es of [] \<Rightarrow> c | (t, e) # r \<Rightarrow> t) - T]")
     (auto simp: ticker_period_def time_Second_def)

declare select_order.simps [simp del]

subsection \<open>streamLogs\<close>

definition container_stopped :: string where
  "container_stopped = ''event: container-stopped'' @ nl @ ''data: end of stream'' @ nl @ nl"

text \<open>The stream-selection mask both handlers build from the query (lines 60-66, 104-110).\<close>

definition stdTypes_of :: "Request \<Rightarrow> StdType" where
  "stdTypes_of r =
     (let stdTypes = 0;
          stdTypes = (if Has (query r) ''stdout'' then stdTypes OR STDOUT else stdTypes);
          stdTypes = (if Has (query r) ''stderr'' then stdTypes OR STDERR else stdTypes)
      in stdTypes)"

text \<open>Lines 135-138.\<close>

definition lastEventId_of :: "Request \<Rightarrow> string" where
  "lastEventId_of r =
     (let lastEventId = Get (header r) ''Last-Event-ID'';
          lastEventId = (if length (Get (query r) ''lastEventId'') > 0
                         then Get (query r) ''lastEventId'' else lastEventId)
      in lastEventId)"

text \<open>The case \<^verbatim>\<open>event, ok := <-g.Events\<close> with \<^verbatim>\<open>ok\<close> true (lines 164-173).\<close>

definition on_event :: "Handler \<Rightarrow> LogEvent \<Rightarrow> Exchange \<Rightarrow> Exchange" where
  "on_event h event w =
     (let w = (case json_Marshal h event of
                 Inl err \<Rightarrow>
                   log_entry ErrorLevel
                     (''json encoding error while streaming '' @ Error_msg err) w
               | Inr buf \<Rightarrow> Fprintf (''data: '' @ buf @ nl) w);
          w = (if Timestamp event > 0
               then Fprintf (''id: '' @ fmt_d (Timestamp event) @ nl) w else w);
          w = Fprintf nl w
      in Flush w)"

text \<open>The case \<^verbatim>\<open><-ticker.C\<close> (lines 174-176).\<close>

definition on_tick :: "Exchange \<Rightarrow> Exchange" where
  "on_tick w = Flush (Fprintf ('':ping '' @ nl @ nl) w)"

text \<open>The loop of lines 156-178; the end of the list is the select that finds the channel closed.\<close>

fun stream_loop :: "Handler \<Rightarrow> Select list \<Rightarrow> Exchange \<Rightarrow> Exchange" where
  "stream_loop h [] w = log_entry DebugLevel ''stream closed'' w"
| "stream_loop h (Recv event # ss) w = stream_loop h ss (on_event h event w)"
| "stream_loop h (Tick # ss) w = stream_loop h ss (on_tick w)"

text \<open>The non-blocking receive on \<^verbatim>\<open>g.Errors\<close> (lines 180-192).\<close>

definition drain_Errors :: "Container \<Rightarrow> error option option \<Rightarrow> Exchange \<Rightarrow> Exchange" where
  "drain_Errors container pending w =
     (case pending of
        None \<Rightarrow> w
      | Some None \<Rightarrow> w
      | Some (Some err) \<Rightarrow>
          if err = EOF then
            Flush (Fprintf container_stopped
              (log_entry DebugLevel (''container stopped: '' @ ID container) w))
          else if err \<noteq> Canceled then
            log_entry ErrorLevel (''unknown error while streaming '' @ Error_msg err) w
          else w)"

text \<open>Lines 194-204.\<close>

definition mem_stats :: "Handler \<Rightarrow> Exchange \<Rightarrow> Exchange" where
  "mem_stats h w =
     (if IsLevelEnabled_Debug h then log_entry DebugLevel ''runtime mem stats'' w else w)"

text \<open>Lines 129-133.\<close>

definition event_stream_headers :: "Exchange \<Rightarrow> Exchange" where
  "event_stream_headers w =
     (let w = Set_header ''Content-Type'' ''text/event-stream'' w;
          w = Set_header ''Cache-Control'' ''no-transform'' w;
          w = Add_header ''Cache-Control'' ''no-cache'' w;
          w = Set_header ''Connection'' ''keep-alive'' w
      in Set_header ''X-Accel-Buffering'' ''no'' w)"

definition streamLogs :: "Handler \<Rightarrow> Request \<Rightarrow> Exchange \<Rightarrow> Exchange" where
  "streamLogs h r w =
     (let id = url_id r;
          stdTypes = stdTypes_of r
      in if stdTypes = 0 then http_Error ''stdout or stderr is required'' StatusBadRequest w
         else if \<not> flusher w then
           http_Error ''Streaming unsupported!'' StatusInternalServerError w
         else
           let w = called (CallFindContainer id) w
           in case FindContainer h id of
                Inl err \<Rightarrow> http_Error (Error_msg err) StatusNotFound w
              | Inr container \<Rightarrow>
                  let w = event_stream_headers w;
                      lastEventId = lastEventId_of r;
                      w = called (CallContainerLogs (ID container) lastEventId stdTypes) w
                  in (case ContainerLogs h (ID container) lastEventId stdTypes of
                        Inl err \<Rightarrow>
                          if err = EOF then Flush (Fprintf container_stopped w)
                          else http_Error (Error_msg err) StatusInternalServerError w
                      | Inr reader \<Rightarrow>
                          (let w = called (CallNewEventGenerator reader (Tty container)) w;
                               g = NewEventGenerator h reader (Tty container);
                               w = stream_loop h
                                     (select_order ticker_period (Events g) (Events_closed g)) w;
                               w = drain_Errors container (Errors g) w
                           in mem_stats h w)))"

subsection \<open>fetchLogsBetweenDates\<close>

text \<open>
  \<^verbatim>\<open>from, _ := time.Parse(time.RFC3339, s)\<close>: the error is dropped, and with an error
  \<^verbatim>\<open>time.Parse\<close> returns \<^verbatim>\<open>time.Time{}\<close>.
\<close>

definition Parse_dropping_error :: "Handler \<Rightarrow> string \<Rightarrow> Time" where
  "Parse_dropping_error h s = (case time_Parse h s of Inl err \<Rightarrow> zero_Time | Inr t \<Rightarrow> t)"

text \<open>
  \<^verbatim>\<open>json.NewEncoder(w).Encode(event)\<close> (lines 94-96): the value is marshalled first, and
  nothing is written when that fails; otherwise the JSON and a newline are written.
\<close>

definition encode_event :: "Handler \<Rightarrow> LogEvent \<Rightarrow> Exchange \<Rightarrow> Exchange" where
  "encode_event h event w =
     (case json_Marshal h event of
        Inl err \<Rightarrow>
          log_entry ErrorLevel (''json encoding error while streaming '' @ Error_msg err) w
      | Inr buf \<Rightarrow> Fprintf (buf @ nl) w)"

text \<open>The loop of lines 87-98, over the values \<^verbatim>\<open>Events\<close> delivers before it is closed.\<close>

fun fetch_loop :: "Handler \<Rightarrow> LogEvent list \<Rightarrow> Exchange \<Rightarrow> Exchange" where
  "fetch_loop h [] w = w"
| "fetch_loop h (event # es) w = fetch_loop h es (encode_event h event w)"

definition fetchLogsBetweenDates :: "Handler \<Rightarrow> Request \<Rightarrow> Exchange \<Rightarrow> Exchange" where
  "fetchLogsBetweenDates h r w =
     (let w = Set_header ''Content-Type'' ''application/ld+json; charset=UTF-8'' w;
          from = Parse_dropping_error h (Get (query r) ''from'');
          to = Parse_dropping_error h (Get (query r) ''to'');
          id = url_id r;
          stdTypes = stdTypes_of r
      in if stdTypes = 0 then http_Error ''stdout or stderr is required'' StatusBadRequest w
         else
           let w = called (CallFindContainer id) w
           in case FindContainer h id of
                Inl err \<Rightarrow> http_Error (Error_msg err) StatusNotFound w
              | Inr container \<Rightarrow>
                  let w = called
                        (CallContainerLogsBetweenDates (ID container) from to stdTypes) w
                  in (case ContainerLogsBetweenDates h (ID container) from to stdTypes of
                        Inl err \<Rightarrow> http_Error (Error_msg err) StatusInternalServerError w
                      | Inr reader \<Rightarrow>
                          (let w = called (CallNewEventGenerator reader (Tty container)) w;
                               g = NewEventGenerator h reader (Tty container)
                           in fetch_loop h (map snd (Events g)) w)))"

subsection \<open>downloadLogs\<close>

text \<open>
  A \<^verbatim>\<open>gzip.Writer\<close> on the response: its three metadata fields, and whether it has
  written its header. \<^verbatim>\<open>gzip.NewWriter\<close> writes nothing; the header goes out with
  the first \<^verbatim>\<open>Write\<close>, or with \<^verbatim>\<open>Close\<close> when there was none.
\<close>

record GzipWriter =
  gz_Name :: string
  gz_Comment :: string
  gz_ModTime :: Time
  wroteHeader :: bool

definition gzip_NewWriter :: GzipWriter where
  "gzip_NewWriter = \<lparr>gz_Name = [], gz_Comment = [], gz_ModTime = zero_Time, wroteHeader = False\<rparr>"

definition gz_header :: "GzipWriter \<Rightarrow> Exchange \<Rightarrow> GzipWriter \<times> Exchange" where
  "gz_header zw w =
     (if wroteHeader zw then (zw, w)
      else (zw\<lparr>wroteHeader := True\<rparr>,
            emit (GzipHeader (gz_Name zw) (gz_Comment zw) (gz_ModTime zw)) w))"

definition gz_Write :: "string \<Rightarrow> GzipWriter \<Rightarrow> Exchange \<Rightarrow> GzipWriter \<times> Exchange" where
  "gz_Write p zw w = (case gz_header zw w of (zw, w) \<Rightarrow> (zw, emit (GzipData p) w))"

definition gz_Close :: "GzipWriter \<Rightarrow> Exchange \<Rightarrow> Exchange" where
  "gz_Close zw w = (case gz_header zw w of (zw, w) \<Rightarrow> emit GzipTrailer w)"

text \<open>\<^verbatim>\<open>io.Copy(zw, reader)\<close>: no \<^verbatim>\<open>Write\<close> at all when the reader has no bytes.\<close>

definition copy_to :: "string \<Rightarrow> GzipWriter \<Rightarrow> Exchange \<Rightarrow> GzipWriter \<times> Exchange" where
  "copy_to p zw w = (if p = [] then (zw, w) else gz_Write p zw w)"

definition downloadLogs :: "Handler \<Rightarrow> Request \<Rightarrow> Exchange \<Rightarrow> Exchange" where
  "downloadLogs h r w =
     (let id = url_id r;
          w = called (CallFindContainer id) w
      in case FindContainer h id of
           Inl err \<Rightarrow> http_Error (Error_msg err) StatusBadRequest w
         | Inr container \<Rightarrow>
             let now = time_Now h;
                 w = Set_header ''Content-Disposition''
                       (''attachment; filename='' @ Name container @ ''-'' @
                        Format_stamp now @ ''.log.gz'') w;
                 w = Set_header ''Content-Type'' ''application/gzip'' w;
                 zw = gzip_NewWriter;
                 zw = zw\<lparr>gz_Name := Name container @ ''-'' @ Format_stamp now @ ''.log''\<rparr>;
                 zw = zw\<lparr>gz_Comment := ''Logs generated by Dozzle''\<rparr>;
                 zw = zw\<lparr>gz_ModTime := now\<rparr>;
                 w = called (CallContainerLogsBetweenDates id zero_Time now STDALL) w
             in (case ContainerLogsBetweenDates h id zero_Time now STDALL of
                   Inl err \<Rightarrow>
                     gz_Close zw (http_Error (Error_msg err) StatusInternalServerError w)
                 | Inr reader \<Rightarrow>
                     (case (if Tty container then copy_to reader zw w
                            else copy_to (StdCopy h reader) zw w)
                      of (zw, w) \<Rightarrow> gz_Close zw w)))"

subsection \<open>What one iteration of a loop leaves behind\<close>

text \<open>
  The items \<open>on_event\<close> and \<open>on_tick\<close> append to the body and the entries
  \<open>on_event\<close> hands to the logger, as functions of the value received (lemmas
  \<open>body_on_event\<close>, \<open>body_on_tick\<close> and \<open>logged_on_event\<close> below); the same for
  \<open>encode_event\<close> (lemma \<open>body_encode_event\<close>); and the entries of a log that are at
  error level.
\<close>

definition event_frame :: "Handler \<Rightarrow> LogEvent \<Rightarrow> out_item list" where
  "event_frame h e =
     (case json_Marshal h e of Inl err \<Rightarrow> [] | Inr buf \<Rightarrow> [Write (''data: '' @ buf @ nl)]) @
     (if Timestamp e > 0 then [Write (''id: '' @ fmt_d (Timestamp e) @ nl)] else []) @
     [Write nl, Flushed]"

definition ping_frame :: "out_item list" where
  "ping_frame = [Write ('':ping '' @ nl @ nl), Flushed]"

fun frame_of :: "Handler \<Rightarrow> Select \<Rightarrow> out_item list" where
  "frame_of h (Recv e) = event_frame h e"
| "frame_of h Tick = ping_frame"

fun encoding_errors :: "Handler \<Rightarrow> Select \<Rightarrow> (Level \<times> string) list" where
  "encoding_errors h (Recv e) =
     (case json_Marshal h e of
        Inl err \<Rightarrow> [(ErrorLevel, ''json encoding error while streaming '' @ Error_msg err)]
      | Inr buf \<Rightarrow> [])"
| "encoding_errors h Tick = []"

fun encoded_line :: "Handler \<Rightarrow> LogEvent \<Rightarrow> out_item list" where
  "encoded_line h e =
     (case json_Marshal h e of Inl err \<Rightarrow> [] | Inr buf \<Rightarrow> [Write (buf @ nl)])"

definition at_ErrorLevel :: "(Level \<times> string) list \<Rightarrow> (Level \<times> string) list" where
  "at_ErrorLevel ls = filter (\<lambda>e. fst e = ErrorLevel) ls"

subsection \<open>The wording of the specification\<close>

text \<open>
  Four sentences of the specification, written down as they read, to be compared
  with what the handlers do: the event frame with the id line before the data line and
  present for every position other than 0; the liveness frame with a space after the
  colon; the resume position taken from the header first and from the query only when
  the header is absent; and the status of a failed download decided by the cause of the
  failure (an unknown container is the client's error, a failing transport the
  server's), whichever call reports it.
\<close>

definition claimed_event_frame :: "string \<Rightarrow> int \<Rightarrow> string" where
  "claimed_event_frame json position =
     (if position \<noteq> 0 then ''id: '' @ fmt_d position @ nl else []) @
     ''data: '' @ json @ nl @ nl"

definition claimed_ping_frame :: string where
  "claimed_ping_frame = '': ping '' @ nl @ nl"

definition claimed_lastEventId :: "Request \<Rightarrow> string" where
  "claimed_lastEventId r =
     (if Has (header r) ''Last-Event-ID'' then Get (header r) ''Last-Event-ID''
      else if Has (query r) ''lastEventId'' then Get (query r) ''lastEventId''
      else [])"

datatype cause = UnknownContainer | TransportFailure

fun claimed_download_status :: "cause \<Rightarrow> nat" where
  "claimed_download_status UnknownContainer = 400"
| "claimed_download_status TransportFailure = 500"

subsection \<open>Concrete exchanges\<close>

text \<open>
  A handler over one container \<open>abc123\<close>, whose generator delivers two events (the
  second cannot be marshalled) and closes after six seconds with \<^verbatim>\<open>io.EOF\<close>
  pending, and a request for its standard output that gives a position both in the
  header and in the query. Then its variants: a generator that stays idle for six
  seconds, a container that has stopped, a transport that fails; and requests without a
  stream flag, for an unknown container, and for a range with a malformed bound. Two
  more variants exchange the causes of a failed download between the two calls: in
  \<open>demo_removed\<close> the container is found and then removed, so that the feed-open
  call is the one that reports it unknown; in \<open>demo_unreachable\<close> the daemon cannot
  be reached, so that the lookup is the one that reports the transport failure.
\<close>

definition demo_container :: Container where
  "demo_container = \<lparr>ID = ''abc123'', Name = ''web'', Tty = False\<rparr>"

definition demo_now :: Time where
  "demo_now = \<lparr>year = 2024, month = 3, day = 9, hour = 7, minute = 5, second = 0\<rparr>"

definition demo_hello :: LogEvent where
  "demo_hello = \<lparr>Timestamp = 5, Message = ''hello''\<rparr>"

definition demo_bad :: LogEvent where
  "demo_bad = \<lparr>Timestamp = 7, Message = ''bad''\<rparr>"

definition demo_generator :: EventGenerator where
  "demo_generator =
     \<lparr>Events = [(1 * time_Second, demo_hello), (2 * time_Second, demo_bad)],
      Events_closed = 6 * time_Second,
      Errors = Some (Some EOF)\<rparr>"

definition demo_handler :: Handler where
  "demo_handler =
     \<lparr>FindContainer =
        (\<lambda>id. if id = ''abc123'' then Inr demo_container
              else Inl (Failure ''no such container'')),
      ContainerLogs = (\<lambda>id pos mask. Inr ''feed''),
      ContainerLogsBetweenDates = (\<lambda>id from to mask. Inr ''feed''),
      NewEventGenerator = (\<lambda>reader tty. demo_generator),
      json_Marshal =
        (\<lambda>e. if Message e = ''bad'' then Inl (Failure ''unsupported value'')
             else Inr (''['' @ fmt_d (Timestamp e) @ '']'')),
      time_Parse =
        (\<lambda>s. if s = ''2024-03-09T07:05:00Z'' then Inr demo_now
             else Inl (Failure ''cannot parse'')),
      time_Now = demo_now,
      StdCopy = (\<lambda>p. p),
      IsLevelEnabled_Debug = False\<rparr>"

definition demo_idle :: Handler where
  "demo_idle =
     demo_handler\<lparr>NewEventGenerator :=
       (\<lambda>reader tty. \<lparr>Events = [], Events_closed = 6 * time_Second, Errors = None\<rparr>)\<rparr>"

definition demo_stopped :: Handler where
  "demo_stopped = demo_handler\<lparr>ContainerLogs := (\<lambda>id pos mask. Inl EOF)\<rparr>"

definition demo_broken :: Handler where
  "demo_broken =
     demo_handler\<lparr>ContainerLogsBetweenDates :=
       (\<lambda>id from to mask. Inl (Failure ''connection refused''))\<rparr>"

definition demo_removed :: Handler where
  "demo_removed =
     demo_handler\<lparr>ContainerLogsBetweenDates :=
       (\<lambda>id from to mask. Inl (Failure ''No such container: abc123''))\<rparr>"

definition demo_unreachable :: Handler where
  "demo_unreachable =
     demo_handler\<lparr>FindContainer :=
       (\<lambda>id. Inl (Failure ''Cannot connect to the Docker daemon''))\<rparr>"

definition demo_request :: Request where
  "demo_request =
     \<lparr>url_id = ''abc123'',
      query = [(''stdout'', []), (''lastEventId'', ''200'')],
      header = [(''Last-Event-ID'', ''100'')]\<rparr>"

definition demo_no_flags :: Request where
  "demo_no_flags = \<lparr>url_id = ''abc123'', query = [(''from'', ''yesterday'')], header = []\<rparr>"

definition demo_unknown :: Request where
  "demo_unknown = \<lparr>url_id = ''zzz'', query = [(''stdout'', [])], header = []\<rparr>"

definition demo_range :: Request where
  "demo_range =
     \<lparr>url_id = ''abc123'',
      query = [(''stderr'', []), (''from'', ''yesterday'')],
      header = []\<rparr>"

section \<open>Properties\<close>

subsection \<open>The streaming loop\<close>

lemmas ops_defs = WriteHeader_def emit_def Fprintf_def Flush_def Set_header_def Add_header_def
  Del_header_def http_Error_def log_entry_def called_def

lemma body_on_event: "body (on_event h e w) = body w @ event_frame h e"
  by (simp add: on_event_def event_frame_def ops_defs Let_def split: sum.splits option.splits)

lemma logged_on_event: "logged (on_event h e w) = logged w @ encoding_errors h (Recv e)"
  by (simp add: on_event_def ops_defs Let_def split: sum.splits option.splits)

lemma calls_on_event: "calls (on_event h e w) = calls w"
  by (simp add: on_event_def ops_defs Let_def split: sum.splits option.splits)

lemma body_on_tick: "body (on_tick w) = body w @ ping_frame"
  by (simp add: on_tick_def ping_frame_def ops_defs Let_def split: option.splits)

lemma logged_on_tick: "logged (on_tick w) = logged w"
  by (simp add: on_tick_def ops_defs Let_def split: option.splits)

lemma calls_on_tick: "calls (on_tick w) = calls w"
  by (simp add: on_tick_def ops_defs Let_def split: option.splits)

lemma body_stream_loop: "body (stream_loop h ss w) = body w @ concat (map (frame_of h) ss)"
proof (induction ss arbitrary: w)
  case Nil
  show ?case by (simp add: log_entry_def)
next
  case (Cons s ss)
  show ?case
  proof (cases s)
    case (Recv e)
    then show ?thesis by (simp add: Cons.IH body_on_event)
  next
    case Tick
    then show ?thesis by (simp add: Cons.IH body_on_tick)
  qed
qed

lemma logged_stream_loop:
  "logged (stream_loop h ss w) =
     logged w @ concat (map (encoding_errors h) ss) @ [(DebugLevel, ''stream closed'')]"
proof (induction ss arbitrary: w)
  case Nil
  show ?case by (simp add: log_entry_def)
next
  case (Cons s ss)
  show ?case
  proof (cases s)
    case (Recv e)
    then show ?thesis using logged_on_event [of h e w] by (simp add: Cons.IH)
  next
    case Tick
    then show ?thesis by (simp add: Cons.IH logged_on_tick)
  qed
qed

lemma calls_stream_loop: "calls (stream_loop h ss w) = calls w"
proof (induction ss arbitrary: w)
  case Nil
  show ?case by (simp add: log_entry_def)
next
  case (Cons s ss)
  then show ?case by (cases s) (simp_all add: calls_on_event calls_on_tick)
qed

lemma at_ErrorLevel_append: "at_ErrorLevel (xs @ ys) = at_ErrorLevel xs @ at_ErrorLevel ys"
  by (simp add: at_ErrorLevel_def)

lemma at_ErrorLevel_encoding_errors:
  "at_ErrorLevel (concat (map (encoding_errors h) ss)) = concat (map (encoding_errors h) ss)"
proof (induction ss)
  case Nil
  show ?case by (simp add: at_ErrorLevel_def)
next
  case (Cons s ss)
  have "at_ErrorLevel (encoding_errors h s) = encoding_errors h s"
    by (cases s) (simp_all add: at_ErrorLevel_def split: sum.splits)
  with Cons show ?case by (simp add: at_ErrorLevel_append)
qed

lemma body_drain_Errors:
  "body (drain_Errors c p w) =
     body w @ (if p = Some (Some EOF) then [Write container_stopped, Flushed] else [])"
  by (simp add: drain_Errors_def ops_defs Let_def split: option.splits)

lemma logged_drain_Errors:
  "at_ErrorLevel (logged (drain_Errors c p w)) =
     at_ErrorLevel (logged w) @
     (case p of
        Some (Some (Failure m)) \<Rightarrow> [(ErrorLevel, ''unknown error while streaming '' @ m)]
      | _ \<Rightarrow> [])"
  by (simp add: drain_Errors_def ops_defs at_ErrorLevel_def Let_def
      split: option.splits error.splits)

lemma body_mem_stats: "body (mem_stats h w) = body w"
  by (simp add: mem_stats_def log_entry_def)

lemma logged_mem_stats: "at_ErrorLevel (logged (mem_stats h w)) = at_ErrorLevel (logged w)"
  by (simp add: mem_stats_def log_entry_def at_ErrorLevel_def)

lemma demo_mask: "stdTypes_of demo_request = 2"
  by (simp add: stdTypes_of_def demo_request_def Has_def STDOUT_def STDERR_def)

lemma demo_order:
  "select_order ticker_period (Events demo_generator) (Events_closed demo_generator) =
     [Recv demo_hello, Recv demo_bad, Tick]"
  by (simp add: demo_generator_def ticker_period_def time_Second_def select_order.simps)

lemma fmt_d_5: "fmt_d 5 = ''5''"
  by (simp add: fmt_d_def digits.simps)

lemma fmt_d_7: "fmt_d 7 = ''7''"
  by (simp add: fmt_d_def digits.simps)

lemma Timestamp_demo_hello: "Timestamp demo_hello = 5"
  by (simp add: demo_hello_def)

lemma marshal_hello: "json_Marshal demo_handler demo_hello = Inr ''[5]''"
  by (simp add: demo_handler_def demo_hello_def fmt_d_5)

lemma marshal_bad: "json_Marshal demo_handler demo_bad = Inl (Failure ''unsupported value'')"
  by (simp add: demo_handler_def demo_bad_def)

lemma Timestamp_demo_bad: "Timestamp demo_bad = 7"
  by (simp add: demo_bad_def)

subsection \<open>The handlers up to the feed\<close>

lemma stdTypes_of_eq_0:
  "stdTypes_of r = 0 \<longleftrightarrow> \<not> Has (query r) ''stdout'' \<and> \<not> Has (query r) ''stderr''"
  by (simp add: stdTypes_of_def STDOUT_def STDERR_def Let_def)

lemma status_http_Error: "status w = None \<Longrightarrow> status (http_Error m code w) = Some code"
  by (simp add: ops_defs Let_def)

lemma calls_http_Error: "calls (http_Error m code w) = calls w"
  by (simp add: ops_defs Let_def split: option.splits)

lemma body_http_Error: "body (http_Error m code w) = body w @ [Write (m @ nl)]"
  by (simp add: ops_defs Let_def split: option.splits)

lemma logged_http_Error: "logged (http_Error m code w) = logged w"
  by (simp add: ops_defs Let_def split: option.splits)

lemma event_stream_headers_fields:
  "body (event_stream_headers w) = body w"
  "logged (event_stream_headers w) = logged w"
  "calls (event_stream_headers w) = calls w"
  "status (event_stream_headers w) = status w"
  by (simp_all add: event_stream_headers_def Set_header_def Add_header_def)

text \<open>
  \<open>streamLogs\<close> from the call of \<^verbatim>\<open>ContainerLogs\<close> on, for a request that passes the
  checks before it.
\<close>

lemma streamLogs_found:
  assumes "Has (query r) ''stdout'' \<or> Has (query r) ''stderr''"
    and "flusher w"
    and "FindContainer h (url_id r) = Inr c"
    and "w1 = called (CallContainerLogs (ID c) (lastEventId_of r) (stdTypes_of r))
           (event_stream_headers (called (CallFindContainer (url_id r)) w))"
  shows "streamLogs h r w =
     (case ContainerLogs h (ID c) (lastEventId_of r) (stdTypes_of r) of
        Inl err \<Rightarrow>
          if err = EOF then Flush (Fprintf container_stopped w1)
          else http_Error (Error_msg err) StatusInternalServerError w1
      | Inr reader \<Rightarrow>
          mem_stats h
            (drain_Errors c (Errors (NewEventGenerator h reader (Tty c)))
              (stream_loop h
                (select_order ticker_period (Events (NewEventGenerator h reader (Tty c)))
                  (Events_closed (NewEventGenerator h reader (Tty c))))
                (called (CallNewEventGenerator reader (Tty c)) w1))))"
proof -
  have "stdTypes_of r \<noteq> 0"
    using assms(1) by (simp add: stdTypes_of_eq_0)
  moreover have "flusher (called (CallFindContainer (url_id r)) w)"
    using assms(2) by (simp add: called_def)
  ultimately show ?thesis
    using assms(2,3,4) by (simp add: streamLogs_def Let_def split: sum.splits)
qed

lemma w1_fields:
  assumes "w1 = called (CallContainerLogs i p m) (event_stream_headers (called (CallFindContainer j) w))"
  shows "body w1 = body w" and "logged w1 = logged w"
    and "calls w1 = calls w @ [CallFindContainer j, CallContainerLogs i p m]"
  using assms by (simp_all add: called_def event_stream_headers_fields)

lemma streamLogs_started:
  assumes mask: "Has (query r) ''stdout'' \<or> Has (query r) ''stderr''"
    and fl: "flusher w"
    and found: "FindContainer h (url_id r) = Inr c"
    and opened: "ContainerLogs h (ID c) (lastEventId_of r) (stdTypes_of r) = Inr reader"
    and gen: "NewEventGenerator h reader (Tty c) = g"
  shows "body (streamLogs h r w) =
           body w @
           concat (map (frame_of h) (select_order ticker_period (Events g) (Events_closed g))) @
           (if Errors g = Some (Some EOF) then [Write container_stopped, Flushed] else [])"
    and "at_ErrorLevel (logged (streamLogs h r w)) =
           at_ErrorLevel (logged w) @
           concat (map (encoding_errors h)
             (select_order ticker_period (Events g) (Events_closed g))) @
           (case Errors g of
              Some (Some (Failure m)) \<Rightarrow> [(ErrorLevel, ''unknown error while streaming '' @ m)]
            | _ \<Rightarrow> [])"
proof -
  define w1 where "w1 = called (CallContainerLogs (ID c) (lastEventId_of r) (stdTypes_of r))
    (event_stream_headers (called (CallFindContainer (url_id r)) w))"
  let ?w2 = "called (CallNewEventGenerator reader (Tty c)) w1"
  let ?ss = "select_order ticker_period (Events g) (Events_closed g)"
  have run: "streamLogs h r w = mem_stats h (drain_Errors c (Errors g) (stream_loop h ?ss ?w2))"
    using streamLogs_found [OF mask fl found w1_def] opened gen by simp
  have b2: "body ?w2 = body w" and l2: "logged ?w2 = logged w"
    using w1_fields [OF w1_def] by (simp_all add: called_def)
  show "body (streamLogs h r w) =
          body w @ concat (map (frame_of h) ?ss) @
          (if Errors g = Some (Some EOF) then [Write container_stopped, Flushed] else [])"
    unfolding run by (simp only: body_mem_stats body_drain_Errors body_stream_loop b2 append_assoc)
  show "at_ErrorLevel (logged (streamLogs h r w)) =
          at_ErrorLevel (logged w) @ concat (map (encoding_errors h) ?ss) @
          (case Errors g of
             Some (Some (Failure m)) \<Rightarrow> [(ErrorLevel, ''unknown error while streaming '' @ m)]
           | _ \<Rightarrow> [])"
    unfolding run
    by (simp add: logged_mem_stats logged_drain_Errors logged_stream_loop l2
        at_ErrorLevel_append at_ErrorLevel_encoding_errors)
       (simp add: at_ErrorLevel_def)
qed

subsection \<open>After streaming has started\<close>

text \<open>
  Claim C1. Once \<open>streamLogs\<close> has started streaming (the mask is not empty, the
  response can be flushed, the container is found and the feed is opened), the body
  of the response is what was there before, then one event frame or ping frame for
  each select of the loop, then the container-stopped frame and a flush exactly when
  the non-blocking receive on \<open>Errors\<close> finds \<open>io.EOF\<close>, and nothing else. The
  entries logged at error level are the encoding failures of the loop, then the
  message of the pending error exactly when it is neither \<open>io.EOF\<close> nor
  \<open>context.Canceled\<close>; with nothing pending, a nil error or a cancellation nothing
  is written and nothing is logged at error level.
\<close>

theorem streamLogs_after_start:
  assumes "Has (query r) ''stdout'' \<or> Has (query r) ''stderr''"
    and "flusher w"
    and "FindContainer h (url_id r) = Inr c"
    and "ContainerLogs h (ID c) (lastEventId_of r) (stdTypes_of r) = Inr reader"
    and "NewEventGenerator h reader (Tty c) = g"
  shows "body (streamLogs h r w) =
           body w @
           concat (map (frame_of h) (select_order ticker_period (Events g) (Events_closed g))) @
           (if Errors g = Some (Some EOF) then [Write container_stopped, Flushed] else []) \<and>
         at_ErrorLevel (logged (streamLogs h r w)) =
           at_ErrorLevel (logged w) @
           concat (map (encoding_errors h)
             (select_order ticker_period (Events g) (Events_closed g))) @
           (case Errors g of
              Some (Some (Failure m)) \<Rightarrow> [(ErrorLevel, ''unknown error while streaming '' @ m)]
            | _ \<Rightarrow> [])"
  using streamLogs_started [OF assms] by (rule conjI)

theorem streamLogs_after_start_witness:
  "(Has (query demo_request) ''stdout'' \<or> Has (query demo_request) ''stderr'') \<and>
   flusher (NewExchange True) \<and>
   FindContainer demo_handler (url_id demo_request) = Inr demo_container \<and>
   ContainerLogs demo_handler (ID demo_container) (lastEventId_of demo_request)
     (stdTypes_of demo_request) = Inr ''feed'' \<and>
   NewEventGenerator demo_handler ''feed'' (Tty demo_container) = demo_generator \<and>
   body (streamLogs demo_handler demo_request (NewExchange True)) =
     [Write (''data: [5]'' @ nl), Write (''id: 5'' @ nl), Write nl, Flushed,
      Write (''id: 7'' @ nl), Write nl, Flushed,
      Write ('':ping '' @ nl @ nl), Flushed,
      Write container_stopped, Flushed] \<and>
   at_ErrorLevel (logged (streamLogs demo_handler demo_request (NewExchange True))) =
     [(ErrorLevel, ''json encoding error while streaming unsupported value'')]"
proof -
  have mask: "Has (query demo_request) ''stdout'' \<or> Has (query demo_request) ''stderr''"
    by (simp add: demo_request_def Has_def)
  have fl: "flusher (NewExchange True)"
    by (simp add: NewExchange_def)
  have found: "FindContainer demo_handler (url_id demo_request) = Inr demo_container"
    by (simp add: demo_handler_def demo_request_def)
  have opened: "ContainerLogs demo_handler (ID demo_container) (lastEventId_of demo_request)
      (stdTypes_of demo_request) = Inr ''feed''"
    by (simp add: demo_handler_def)
  have gen: "NewEventGenerator demo_handler ''feed'' (Tty demo_container) = demo_generator"
    by (simp add: demo_handler_def)
  have errs: "Errors demo_generator = Some (Some EOF)"
    by (simp add: demo_generator_def)
  show ?thesis
    using streamLogs_after_start [OF mask fl found opened gen] mask fl found opened gen
    by (simp add: demo_order event_frame_def ping_frame_def marshal_hello marshal_bad errs
        Timestamp_demo_hello Timestamp_demo_bad fmt_d_5 fmt_d_7 NewExchange_def
        at_ErrorLevel_def)
qed

subsection \<open>Requests without a stream\<close>

text \<open>
  Claim C2. A request to the streaming endpoint or to the range endpoint whose query
  has neither \<^verbatim>\<open>stdout\<close> nor \<^verbatim>\<open>stderr\<close> is answered with status 400, and the
  handler returns without a call to \<^verbatim>\<open>FindContainer\<close>, to a feed-open function or
  to the event generator: the list of calls is what it was.
\<close>

theorem empty_mask_rejected:
  assumes "\<not> Has (query r) ''stdout''" and "\<not> Has (query r) ''stderr''"
    and "status w = None"
  shows "status (streamLogs h r w) = Some 400 \<and> calls (streamLogs h r w) = calls w \<and>
         status (fetchLogsBetweenDates h r w) = Some 400 \<and>
         calls (fetchLogsBetweenDates h r w) = calls w"
proof -
  have zero: "stdTypes_of r = 0"
    using assms(1,2) by (simp add: stdTypes_of_eq_0)
  have s: "streamLogs h r w = http_Error ''stdout or stderr is required'' StatusBadRequest w"
    using zero by (simp add: streamLogs_def Let_def)
  have f: "fetchLogsBetweenDates h r w =
      http_Error ''stdout or stderr is required'' StatusBadRequest
        (Set_header ''Content-Type'' ''application/ld+json; charset=UTF-8'' w)"
    using zero by (simp add: fetchLogsBetweenDates_def Let_def)
  have w': "status (Set_header ''Content-Type'' ''application/ld+json; charset=UTF-8'' w) = None"
    "calls (Set_header ''Content-Type'' ''application/ld+json; charset=UTF-8'' w) = calls w"
    using assms(3) by (simp_all add: Set_header_def)
  show ?thesis
    unfolding s f
    using assms(3) w'
    by (simp add: status_http_Error calls_http_Error StatusBadRequest_def)
qed

theorem empty_mask_rejected_witness:
  "\<not> Has (query demo_no_flags) ''stdout'' \<and> \<not> Has (query demo_no_flags) ''stderr'' \<and>
   status (NewExchange True) = None \<and>
   status (streamLogs demo_handler demo_no_flags (NewExchange True)) = Some 400 \<and>
   calls (streamLogs demo_handler demo_no_flags (NewExchange True)) = [] \<and>
   status (fetchLogsBetweenDates demo_handler demo_no_flags (NewExchange True)) = Some 400 \<and>
   calls (fetchLogsBetweenDates demo_handler demo_no_flags (NewExchange True)) = []"
proof -
  have a: "\<not> Has (query demo_no_flags) ''stdout''"
    and b: "\<not> Has (query demo_no_flags) ''stderr''"
    by (simp_all add: demo_no_flags_def Has_def)
  have c: "status (NewExchange True) = None"
    by (simp add: NewExchange_def)
  have d: "calls (NewExchange True) = []"
    by (simp add: NewExchange_def)
  show ?thesis
    using empty_mask_rejected [OF a b c, of demo_handler] a b c d by simp
qed

subsection \<open>Frames\<close>

text \<open>
  Claim C3, as amended. For an event received on the live stream whose JSON encoding
  succeeds, the handler writes the line \<^verbatim>\<open>data: <json>\<close>, then the line
  \<^verbatim>\<open>id: <position>\<close> exactly when the event's position (its \<open>Timestamp\<close>) is
  greater than 0, then an empty line, and flushes. The id line follows the data line;
  it does not precede it.
\<close>

theorem on_event_frame:
  assumes "json_Marshal h e = Inr buf"
  shows "body (on_event h e w) =
           body w @ [Write (''data: '' @ buf @ nl)] @
           (if Timestamp e > 0 then [Write (''id: '' @ fmt_d (Timestamp e) @ nl)] else []) @
           [Write nl, Flushed]"
  using assms by (simp add: body_on_event event_frame_def)

theorem on_event_frame_witness:
  "json_Marshal demo_handler demo_hello = Inr ''[5]'' \<and>
   body (on_event demo_handler demo_hello (NewExchange True)) =
     [Write (''data: [5]'' @ nl), Write (''id: 5'' @ nl), Write nl, Flushed]"
  using on_event_frame [OF marshal_hello, of "NewExchange True"] marshal_hello
  by (simp add: NewExchange_def Timestamp_demo_hello fmt_d_5)

theorem on_event_frame_counterexample:
  "wire (body (on_event demo_handler demo_hello (NewExchange True))) \<noteq>
     claimed_event_frame ''[5]'' (Timestamp demo_hello)"
proof -
  have "body (on_event demo_handler demo_hello (NewExchange True)) =
      [Write (''data: [5]'' @ nl), Write (''id: 5'' @ nl), Write nl, Flushed]"
    by (simp add: body_on_event event_frame_def marshal_hello NewExchange_def
        Timestamp_demo_hello fmt_d_5)
  then show ?thesis
    by (simp add: claimed_event_frame_def Timestamp_demo_hello fmt_d_5 nl_def)
qed

subsection \<open>The liveness frame\<close>

lemma url_id_demo_request: "url_id demo_request = ''abc123''"
  by (simp add: demo_request_def)

lemma ID_demo_container: "ID demo_container = ''abc123''"
  by (simp add: demo_container_def)

lemma demo_request_flags:
  "Has (query demo_request) ''stdout'' \<or> Has (query demo_request) ''stderr''"
  by (simp add: demo_request_def Has_def)

lemma flusher_NewExchange: "flusher (NewExchange True)"
  by (simp add: NewExchange_def)

lemma idle_six_seconds: "select_order ticker_period [] (6 * time_Second) = [Tick]"
  by (simp add: ticker_period_def time_Second_def select_order.simps)

text \<open>
  Claim C4, as amended. The ticker of the live stream has a period of 5 seconds; on a
  tick the handler writes the bytes \<^verbatim>\<open>:ping\<close>, a space and two newlines (no space
  after the colon) and flushes; and a stream that stays idle until its generator closes
  the channel after 6 seconds, with no error pending, emits exactly one such frame.
\<close>

theorem idle_stream_pings_once:
  assumes "Has (query r) ''stdout'' \<or> Has (query r) ''stderr''"
    and "flusher w"
    and "FindContainer h (url_id r) = Inr c"
    and "ContainerLogs h (ID c) (lastEventId_of r) (stdTypes_of r) = Inr reader"
    and "NewEventGenerator h reader (Tty c) = g"
    and "Events g = []" and "Events_closed g = 6 * time_Second" and "Errors g = None"
  shows "ticker_period = 5 * time_Second \<and>
         body (on_tick w) = body w @ [Write ('':ping '' @ nl @ nl), Flushed] \<and>
         body (streamLogs h r w) = body w @ [Write ('':ping '' @ nl @ nl), Flushed]"
proof -
  have "body (streamLogs h r w) = body w @ [Write ('':ping '' @ nl @ nl), Flushed]"
    using streamLogs_started(1) [OF assms(1-5)] assms(6-8)
    by (simp add: idle_six_seconds ping_frame_def)
  then show ?thesis
    by (simp add: body_on_tick ping_frame_def ticker_period_def)
qed

theorem idle_stream_pings_once_witness:
  "(Has (query demo_request) ''stdout'' \<or> Has (query demo_request) ''stderr'') \<and>
   flusher (NewExchange True) \<and>
   FindContainer demo_idle (url_id demo_request) = Inr demo_container \<and>
   ContainerLogs demo_idle (ID demo_container) (lastEventId_of demo_request)
     (stdTypes_of demo_request) = Inr ''feed'' \<and>
   Events (NewEventGenerator demo_idle ''feed'' (Tty demo_container)) = [] \<and>
   Events_closed (NewEventGenerator demo_idle ''feed'' (Tty demo_container)) = 6 * time_Second \<and>
   Errors (NewEventGenerator demo_idle ''feed'' (Tty demo_container)) = None \<and>
   body (streamLogs demo_idle demo_request (NewExchange True)) =
     [Write ('':ping '' @ nl @ nl), Flushed]"
proof -
  have found: "FindContainer demo_idle (url_id demo_request) = Inr demo_container"
    by (simp add: demo_idle_def demo_handler_def demo_request_def)
  have opened: "ContainerLogs demo_idle (ID demo_container) (lastEventId_of demo_request)
      (stdTypes_of demo_request) = Inr ''feed''"
    by (simp add: demo_idle_def demo_handler_def)
  have ev: "Events (NewEventGenerator demo_idle ''feed'' (Tty demo_container)) = []"
    and cl: "Events_closed (NewEventGenerator demo_idle ''feed'' (Tty demo_container)) =
      6 * time_Second"
    and er: "Errors (NewEventGenerator demo_idle ''feed'' (Tty demo_container)) = None"
    by (simp_all add: demo_idle_def)
  note t = idle_stream_pings_once [OF demo_request_flags flusher_NewExchange found opened refl
      ev cl er]
  have b: "body (streamLogs demo_idle demo_request (NewExchange True)) =
      [Write ('':ping '' @ nl @ nl), Flushed]"
    using conjunct2 [OF conjunct2 [OF t]] by (simp add: NewExchange_def)
  show ?thesis
    by (intro conjI) (fact demo_request_flags flusher_NewExchange found opened ev cl er b)+
qed

theorem ping_frame_counterexample:
  "wire (body (on_tick (NewExchange True))) \<noteq> claimed_ping_frame"
  by (simp add: body_on_tick ping_frame_def NewExchange_def claimed_ping_frame_def nl_def)

subsection \<open>A container that has stopped\<close>

text \<open>
  Claim C5. When \<^verbatim>\<open>ContainerLogs\<close> reports \<^verbatim>\<open>io.EOF\<close> (the container has already
  stopped), \<open>streamLogs\<close> writes exactly the frame
  \<^verbatim>\<open>event: container-stopped\<close>, \<^verbatim>\<open>data: end of stream\<close>, an empty line, flushes
  and returns: no event generator is made (the calls end with the feed-open call) and
  the loop is never entered (nothing is logged).
\<close>

theorem stopped_container_one_frame:
  assumes "Has (query r) ''stdout'' \<or> Has (query r) ''stderr''"
    and "flusher w"
    and "FindContainer h (url_id r) = Inr c"
    and "ContainerLogs h (ID c) (lastEventId_of r) (stdTypes_of r) = Inl EOF"
  shows "body (streamLogs h r w) =
           body w @
           [Write (''event: container-stopped'' @ nl @ ''data: end of stream'' @ nl @ nl),
            Flushed] \<and>
         calls (streamLogs h r w) =
           calls w @ [CallFindContainer (url_id r),
                      CallContainerLogs (ID c) (lastEventId_of r) (stdTypes_of r)] \<and>
         logged (streamLogs h r w) = logged w"
proof -
  define w1 where "w1 = called (CallContainerLogs (ID c) (lastEventId_of r) (stdTypes_of r))
    (event_stream_headers (called (CallFindContainer (url_id r)) w))"
  have run: "streamLogs h r w = Flush (Fprintf container_stopped w1)"
    using streamLogs_found [OF assms(1-3) w1_def] assms(4) by simp
  show ?thesis
    unfolding run using w1_fields [OF w1_def]
    by (simp add: Flush_def Fprintf_def emit_def WriteHeader_def container_stopped_def
        split: option.splits)
qed

theorem stopped_container_one_frame_witness:
  "(Has (query demo_request) ''stdout'' \<or> Has (query demo_request) ''stderr'') \<and>
   flusher (NewExchange True) \<and>
   FindContainer demo_stopped (url_id demo_request) = Inr demo_container \<and>
   ContainerLogs demo_stopped (ID demo_container) (lastEventId_of demo_request)
     (stdTypes_of demo_request) = Inl EOF \<and>
   wire (body (streamLogs demo_stopped demo_request (NewExchange True))) =
     ''event: container-stopped'' @ nl @ ''data: end of stream'' @ nl @ nl \<and>
   calls (streamLogs demo_stopped demo_request (NewExchange True)) =
     [CallFindContainer ''abc123'', CallContainerLogs ''abc123'' ''200'' 2]"
proof -
  have found: "FindContainer demo_stopped (url_id demo_request) = Inr demo_container"
    by (simp add: demo_stopped_def demo_handler_def demo_request_def)
  have opened: "ContainerLogs demo_stopped (ID demo_container) (lastEventId_of demo_request)
      (stdTypes_of demo_request) = Inl EOF"
    by (simp add: demo_stopped_def)
  have pos: "lastEventId_of demo_request = ''200''"
    by (simp add: lastEventId_of_def demo_request_def Get_def)
  note t = stopped_container_one_frame [OF demo_request_flags flusher_NewExchange found opened]
  have b: "wire (body (streamLogs demo_stopped demo_request (NewExchange True))) =
      ''event: container-stopped'' @ nl @ ''data: end of stream'' @ nl @ nl"
    using conjunct1 [OF t] by (simp add: NewExchange_def)
  have c: "calls (streamLogs demo_stopped demo_request (NewExchange True)) =
      [CallFindContainer ''abc123'', CallContainerLogs ''abc123'' ''200'' 2]"
    using conjunct1 [OF conjunct2 [OF t]]
    by (simp add: NewExchange_def pos demo_mask url_id_demo_request ID_demo_container)
  show ?thesis
    by (intro conjI) (fact demo_request_flags flusher_NewExchange found opened b c)+
qed

subsection \<open>Encoding failures\<close>

lemma body_encode_event: "body (encode_event h e w) = body w @ encoded_line h e"
  by (simp add: encode_event_def ops_defs Let_def split: sum.splits option.splits)

lemma logged_encode_event: "logged (encode_event h e w) = logged w @ encoding_errors h (Recv e)"
  by (simp add: encode_event_def ops_defs Let_def split: sum.splits option.splits)

lemma calls_encode_event: "calls (encode_event h e w) = calls w"
  by (simp add: encode_event_def ops_defs Let_def split: sum.splits option.splits)

lemma body_fetch_loop: "body (fetch_loop h es w) = body w @ concat (map (encoded_line h) es)"
  by (induction es arbitrary: w) (simp_all add: body_encode_event del: encoded_line.simps)

lemma calls_fetch_loop: "calls (fetch_loop h es w) = calls w"
  by (induction es arbitrary: w) (simp_all add: calls_encode_event)

lemma status_encode_event:
  "status w = None \<or> status w = Some 200 \<Longrightarrow>
   status (encode_event h e w) = None \<or> status (encode_event h e w) = Some 200"
  by (auto simp: encode_event_def ops_defs Let_def split: sum.splits option.splits)

lemma status_fetch_loop:
  "status w = None \<or> status w = Some 200 \<Longrightarrow>
   status (fetch_loop h es w) = None \<or> status (fetch_loop h es w) = Some 200"
proof (induction es arbitrary: w)
  case Nil
  then show ?case by simp
next
  case (Cons e es)
  from Cons.prems have "status (encode_event h e w) = None \<or> status (encode_event h e w) = Some 200"
    by (rule status_encode_event)
  then show ?case
    using Cons.IH [of "encode_event h e w"] by simp
qed

text \<open>
  Claim C6, as amended. When \<^verbatim>\<open>json.Marshal\<close> fails on an event, the failure is
  logged at error level, no data line (no JSON) of that event is written, and both
  loops go on with the events that follow. On the range endpoint nothing of the event
  is written. On the live stream the rest of its frame is still written: the id line
  when its position is greater than 0, the empty line, and a flush.
\<close>

theorem encoding_failure_keeps_streaming:
  assumes "json_Marshal h e = Inl err"
  shows "logged (on_event h e w) =
           logged w @ [(ErrorLevel, ''json encoding error while streaming '' @ Error_msg err)] \<and>
         body (stream_loop h (Recv e # ss) w) =
           body w @
           (if Timestamp e > 0 then [Write (''id: '' @ fmt_d (Timestamp e) @ nl)] else []) @
           [Write nl, Flushed] @ concat (map (frame_of h) ss) \<and>
         logged (encode_event h e w) =
           logged w @ [(ErrorLevel, ''json encoding error while streaming '' @ Error_msg err)] \<and>
         body (fetch_loop h (e # es) w) = body w @ concat (map (encoded_line h) es)"
  using assms
  by (simp add: logged_on_event logged_encode_event body_stream_loop body_fetch_loop
      body_on_event body_encode_event event_frame_def)

theorem encoding_failure_keeps_streaming_witness:
  "json_Marshal demo_handler demo_bad = Inl (Failure ''unsupported value'') \<and>
   logged (on_event demo_handler demo_bad (NewExchange True)) =
     [(ErrorLevel, ''json encoding error while streaming unsupported value'')] \<and>
   body (stream_loop demo_handler [Recv demo_bad, Recv demo_hello] (NewExchange True)) =
     [Write (''id: 7'' @ nl), Write nl, Flushed,
      Write (''data: [5]'' @ nl), Write (''id: 5'' @ nl), Write nl, Flushed] \<and>
   body (fetch_loop demo_handler [demo_bad, demo_hello] (NewExchange True)) =
     [Write (''[5]'' @ nl)]"
proof -
  note t = encoding_failure_keeps_streaming [OF marshal_bad, of "NewExchange True"
      "[Recv demo_hello]" "[demo_hello]"]
  have a: "logged (on_event demo_handler demo_bad (NewExchange True)) =
      [(ErrorLevel, ''json encoding error while streaming unsupported value'')]"
    using conjunct1 [OF t] by (simp add: NewExchange_def)
  have b: "body (stream_loop demo_handler [Recv demo_bad, Recv demo_hello] (NewExchange True)) =
      [Write (''id: 7'' @ nl), Write nl, Flushed,
       Write (''data: [5]'' @ nl), Write (''id: 5'' @ nl), Write nl, Flushed]"
    using conjunct1 [OF conjunct2 [OF t]]
    by (simp add: NewExchange_def Timestamp_demo_bad Timestamp_demo_hello fmt_d_5 fmt_d_7
        event_frame_def marshal_hello)
  have c: "body (fetch_loop demo_handler [demo_bad, demo_hello] (NewExchange True)) =
      [Write (''[5]'' @ nl)]"
    using conjunct2 [OF conjunct2 [OF conjunct2 [OF t]]]
    by (simp add: NewExchange_def marshal_hello)
  show ?thesis
    by (intro conjI) (fact marshal_bad a b c)+
qed

theorem encoding_failure_counterexample:
  "json_Marshal demo_handler demo_bad = Inl (Failure ''unsupported value'') \<and>
   wire (body (on_event demo_handler demo_bad (NewExchange True))) \<noteq> []"
  by (simp add: marshal_bad body_on_event event_frame_def Timestamp_demo_bad NewExchange_def
      nl_def)

subsection \<open>The resume position\<close>

lemma calls_drain_Errors: "calls (drain_Errors c p w) = calls w"
  by (simp add: drain_Errors_def ops_defs Let_def split: option.splits)

lemma calls_mem_stats: "calls (mem_stats h w) = calls w"
  by (simp add: mem_stats_def log_entry_def)

lemma calls_streamLogs_found:
  assumes "Has (query r) ''stdout'' \<or> Has (query r) ''stderr''"
    and "flusher w"
    and "FindContainer h (url_id r) = Inr c"
  shows "calls (streamLogs h r w) =
     calls w @
     [CallFindContainer (url_id r),
      CallContainerLogs (ID c) (lastEventId_of r) (stdTypes_of r)] @
     (case ContainerLogs h (ID c) (lastEventId_of r) (stdTypes_of r) of
        Inl err \<Rightarrow> []
      | Inr reader \<Rightarrow> [CallNewEventGenerator reader (Tty c)])"
proof -
  define w1 where "w1 = called (CallContainerLogs (ID c) (lastEventId_of r) (stdTypes_of r))
    (event_stream_headers (called (CallFindContainer (url_id r)) w))"
  show ?thesis
    unfolding streamLogs_found [OF assms w1_def]
    using w1_fields(3) [OF w1_def]
    by (simp add: calls_mem_stats calls_drain_Errors calls_stream_loop calls_http_Error
        Flush_def Fprintf_def emit_def WriteHeader_def called_def
        split: sum.splits option.splits)
qed

text \<open>
  Claim C7, as amended. The position \<open>streamLogs\<close> passes to \<^verbatim>\<open>ContainerLogs\<close> is
  the query parameter \<^verbatim>\<open>lastEventId\<close> whenever that is not empty, the header
  \<^verbatim>\<open>Last-Event-ID\<close> otherwise, and the empty string when both are absent: the
  query parameter takes precedence over the header.
\<close>

theorem resume_position_query_first:
  assumes "Has (query r) ''stdout'' \<or> Has (query r) ''stderr''"
    and "flusher w"
    and "FindContainer h (url_id r) = Inr c"
  shows "calls (streamLogs h r w) =
     calls w @
     [CallFindContainer (url_id r),
      CallContainerLogs (ID c)
        (if Get (query r) ''lastEventId'' \<noteq> [] then Get (query r) ''lastEventId''
         else Get (header r) ''Last-Event-ID'')
        (stdTypes_of r)] @
     (case ContainerLogs h (ID c) (lastEventId_of r) (stdTypes_of r) of
        Inl err \<Rightarrow> []
      | Inr reader \<Rightarrow> [CallNewEventGenerator reader (Tty c)])"
  using calls_streamLogs_found [OF assms] by (simp add: lastEventId_of_def Let_def)

lemma demo_found: "FindContainer demo_handler (url_id demo_request) = Inr demo_container"
  by (simp add: demo_handler_def demo_request_def)

lemma demo_position: "lastEventId_of demo_request = ''200''"
  by (simp add: lastEventId_of_def demo_request_def Get_def)

theorem resume_position_query_first_witness:
  "(Has (query demo_request) ''stdout'' \<or> Has (query demo_request) ''stderr'') \<and>
   flusher (NewExchange True) \<and>
   FindContainer demo_handler (url_id demo_request) = Inr demo_container \<and>
   Get (header demo_request) ''Last-Event-ID'' = ''100'' \<and>
   Get (query demo_request) ''lastEventId'' = ''200'' \<and>
   calls (streamLogs demo_handler demo_request (NewExchange True)) =
     [CallFindContainer ''abc123'', CallContainerLogs ''abc123'' ''200'' 2,
      CallNewEventGenerator ''feed'' False]"
proof -
  have hd: "Get (header demo_request) ''Last-Event-ID'' = ''100''"
    and q: "Get (query demo_request) ''lastEventId'' = ''200''"
    by (simp_all add: demo_request_def Get_def)
  have opened: "ContainerLogs demo_handler ''abc123'' ''200'' 2 = Inr ''feed''"
    by (simp add: demo_handler_def)
  have c: "calls (streamLogs demo_handler demo_request (NewExchange True)) =
     [CallFindContainer ''abc123'', CallContainerLogs ''abc123'' ''200'' 2,
      CallNewEventGenerator ''feed'' False]"
    using resume_position_query_first [OF demo_request_flags flusher_NewExchange demo_found]
    by (simp add: hd q demo_position demo_mask url_id_demo_request ID_demo_container opened
        NewExchange_def demo_container_def)
  show ?thesis
    by (intro conjI) (fact demo_request_flags flusher_NewExchange demo_found hd q c)+
qed

theorem resume_position_counterexample:
  "claimed_lastEventId demo_request = ''100'' \<and>
   CallContainerLogs (ID demo_container) (claimed_lastEventId demo_request)
     (stdTypes_of demo_request)
   \<notin> set (calls (streamLogs demo_handler demo_request (NewExchange True)))"
proof -
  have cl: "claimed_lastEventId demo_request = ''100''"
    by (simp add: claimed_lastEventId_def demo_request_def Has_def Get_def)
  have opened: "ContainerLogs demo_handler ''abc123'' ''200'' 2 = Inr ''feed''"
    by (simp add: demo_handler_def)
  have "calls (streamLogs demo_handler demo_request (NewExchange True)) =
     [CallFindContainer ''abc123'', CallContainerLogs ''abc123'' ''200'' 2,
      CallNewEventGenerator ''feed'' False]"
    using calls_streamLogs_found [OF demo_request_flags flusher_NewExchange demo_found]
    by (simp add: demo_position demo_mask url_id_demo_request ID_demo_container opened
        NewExchange_def demo_container_def)
  then show ?thesis
    by (simp add: cl ID_demo_container demo_mask)
qed

subsection \<open>Downloads\<close>

lemma gz_Close_fresh:
  "\<not> wroteHeader zw \<Longrightarrow>
   body (gz_Close zw w) =
     body w @ [GzipHeader (gz_Name zw) (gz_Comment zw) (gz_ModTime zw), GzipTrailer]"
  by (simp add: gz_Close_def gz_header_def emit_def WriteHeader_def split: option.splits)

lemma status_emit: "status (emit x w) = (case status w of None \<Rightarrow> Some 200 | Some c \<Rightarrow> Some c)"
  by (simp add: emit_def WriteHeader_def split: option.splits)

lemma status_gz_Close:
  "status (gz_Close zw w) = (case status w of None \<Rightarrow> Some 200 | Some c \<Rightarrow> Some c)"
  by (simp add: gz_Close_def gz_header_def emit_def WriteHeader_def split: option.splits)

lemma downloadLogs_not_found:
  assumes "FindContainer h (url_id r) = Inl e"
  shows "downloadLogs h r w =
     http_Error (Error_msg e) StatusBadRequest (called (CallFindContainer (url_id r)) w)"
  using assms by (simp add: downloadLogs_def Let_def)

text \<open>
  Claim C8, as amended. On the download endpoint the status of a failure is decided by
  the call that fails, not by the cause of the error, which the handler never
  inspects. On a response nothing has been written to: when \<^verbatim>\<open>FindContainer\<close>
  fails, with any error, the status is 400, the body is the error message alone and no
  feed is opened; when the container is found and the feed-open call fails, with any
  error, the status is 500 and the error message is the first thing in the body (the
  gzip writer, closed on return, adds its header and trailer after it). In both cases
  the status is fixed by \<^verbatim>\<open>http.Error\<close> before any byte of the body.
\<close>

theorem download_failures:
  assumes "status w = None" and "body w = []"
  shows "(FindContainer h (url_id r) = Inl e \<longrightarrow>
            status (downloadLogs h r w) = Some 400 \<and>
            body (downloadLogs h r w) = [Write (Error_msg e @ nl)] \<and>
            calls (downloadLogs h r w) = calls w @ [CallFindContainer (url_id r)]) \<and>
         (FindContainer h (url_id r) = Inr c \<and>
          ContainerLogsBetweenDates h (url_id r) zero_Time (time_Now h) STDALL = Inl e \<longrightarrow>
            status (downloadLogs h r w) = Some 500 \<and>
            body (downloadLogs h r w) =
              [Write (Error_msg e @ nl),
               GzipHeader (Name c @ ''-'' @ Format_stamp (time_Now h) @ ''.log'')
                 ''Logs generated by Dozzle'' (time_Now h),
               GzipTrailer])"
proof (intro conjI impI)
  assume nf: "FindContainer h (url_id r) = Inl e"
  have w': "status (called (CallFindContainer (url_id r)) w) = None"
    "body (called (CallFindContainer (url_id r)) w) = []"
    "calls (called (CallFindContainer (url_id r)) w) = calls w @ [CallFindContainer (url_id r)]"
    using assms by (simp_all add: called_def)
  show "status (downloadLogs h r w) = Some 400"
    unfolding downloadLogs_not_found [OF nf]
    by (simp add: status_http_Error w' StatusBadRequest_def)
  show "body (downloadLogs h r w) = [Write (Error_msg e @ nl)]"
    unfolding downloadLogs_not_found [OF nf] by (simp add: body_http_Error w')
  show "calls (downloadLogs h r w) = calls w @ [CallFindContainer (url_id r)]"
    unfolding downloadLogs_not_found [OF nf] by (simp add: calls_http_Error w')
next
  assume a: "FindContainer h (url_id r) = Inr c \<and>
    ContainerLogsBetweenDates h (url_id r) zero_Time (time_Now h) STDALL = Inl e"
  define w1 where "w1 = called (CallContainerLogsBetweenDates (url_id r) zero_Time (time_Now h) STDALL)
    (Set_header ''Content-Type'' ''application/gzip''
      (Set_header ''Content-Disposition''
        (''attachment; filename='' @ Name c @ ''-'' @ Format_stamp (time_Now h) @ ''.log.gz'')
        (called (CallFindContainer (url_id r)) w)))"
  define zw where "zw = \<lparr>gz_Name = Name c @ ''-'' @ Format_stamp (time_Now h) @ ''.log'',
    gz_Comment = ''Logs generated by Dozzle'', gz_ModTime = time_Now h, wroteHeader = False\<rparr>"
  have run: "downloadLogs h r w =
      gz_Close zw (http_Error (Error_msg e) StatusInternalServerError w1)"
    using a by (simp add: downloadLogs_def Let_def w1_def zw_def gzip_NewWriter_def)
  have w1: "status w1 = None" "body w1 = []"
    using assms by (simp_all add: w1_def called_def Set_header_def)
  have zw: "\<not> wroteHeader zw" "gz_Name zw = Name c @ ''-'' @ Format_stamp (time_Now h) @ ''.log''"
    "gz_Comment zw = ''Logs generated by Dozzle''" "gz_ModTime zw = time_Now h"
    by (simp_all add: zw_def)
  show "status (downloadLogs h r w) = Some 500"
    unfolding run
    by (simp add: status_gz_Close status_http_Error w1 StatusInternalServerError_def)
  show "body (downloadLogs h r w) =
      [Write (Error_msg e @ nl),
       GzipHeader (Name c @ ''-'' @ Format_stamp (time_Now h) @ ''.log'')
         ''Logs generated by Dozzle'' (time_Now h),
       GzipTrailer]"
    unfolding run by (simp add: gz_Close_fresh zw body_http_Error w1)
qed

lemma demo_stamp: "Format_stamp demo_now = ''2024-03-09T07-05-00''"
  by (simp add: Format_stamp_def demo_now_def pad2_def pad4_def digits.simps)

lemma Name_demo_container: "Name demo_container = ''web''"
  by (simp add: demo_container_def)

lemma status_NewExchange: "status (NewExchange f) = None"
  by (simp add: NewExchange_def)

lemma body_NewExchange: "body (NewExchange f) = []"
  by (simp add: NewExchange_def)

lemma calls_NewExchange: "calls (NewExchange f) = []"
  by (simp add: NewExchange_def)

theorem download_failures_witness:
  "status (NewExchange True) = None \<and> body (NewExchange True) = [] \<and>
   FindContainer demo_handler (url_id demo_unknown) = Inl (Failure ''no such container'') \<and>
   status (downloadLogs demo_handler demo_unknown (NewExchange True)) = Some 400 \<and>
   body (downloadLogs demo_handler demo_unknown (NewExchange True)) =
     [Write (''no such container'' @ nl)] \<and>
   calls (downloadLogs demo_handler demo_unknown (NewExchange True)) =
     [CallFindContainer ''zzz''] \<and>
   FindContainer demo_broken (url_id demo_request) = Inr demo_container \<and>
   ContainerLogsBetweenDates demo_broken (url_id demo_request) zero_Time (time_Now demo_broken)
     STDALL = Inl (Failure ''connection refused'') \<and>
   status (downloadLogs demo_broken demo_request (NewExchange True)) = Some 500 \<and>
   body (downloadLogs demo_broken demo_request (NewExchange True)) =
     [Write (''connection refused'' @ nl),
      GzipHeader ''web-2024-03-09T07-05-00.log'' ''Logs generated by Dozzle'' demo_now,
      GzipTrailer]"
proof -
  have nf: "FindContainer demo_handler (url_id demo_unknown) = Inl (Failure ''no such container'')"
    by (simp add: demo_handler_def demo_unknown_def)
  have found: "FindContainer demo_broken (url_id demo_request) = Inr demo_container"
    by (simp add: demo_broken_def demo_handler_def demo_request_def)
  have failed: "ContainerLogsBetweenDates demo_broken (url_id demo_request) zero_Time
      (time_Now demo_broken) STDALL = Inl (Failure ''connection refused'')"
    by (simp add: demo_broken_def)
  have now: "time_Now demo_broken = demo_now"
    by (simp add: demo_broken_def demo_handler_def)
  note t1 = download_failures [where w = "NewExchange True" and h = demo_handler
      and r = demo_unknown and e = "Failure ''no such container''" and c = demo_container,
      OF status_NewExchange body_NewExchange, THEN conjunct1, rule_format, OF nf]
  note t2 = download_failures [where w = "NewExchange True" and h = demo_broken
      and r = demo_request and e = "Failure ''connection refused''" and c = demo_container,
      OF status_NewExchange body_NewExchange, THEN conjunct2, rule_format,
      OF conjI [OF found failed]]
  have a: "status (downloadLogs demo_handler demo_unknown (NewExchange True)) = Some 400"
    using t1 by simp
  have b: "body (downloadLogs demo_handler demo_unknown (NewExchange True)) =
      [Write (''no such container'' @ nl)]"
    using t1 by simp
  have c: "calls (downloadLogs demo_handler demo_unknown (NewExchange True)) =
      [CallFindContainer ''zzz'']"
    using t1 by (simp add: calls_NewExchange demo_unknown_def)
  have d: "status (downloadLogs demo_broken demo_request (NewExchange True)) = Some 500"
    using t2 by simp
  have e: "body (downloadLogs demo_broken demo_request (NewExchange True)) =
      [Write (''connection refused'' @ nl),
       GzipHeader ''web-2024-03-09T07-05-00.log'' ''Logs generated by Dozzle'' demo_now,
       GzipTrailer]"
    using t2 by (simp add: now demo_stamp Name_demo_container)
  show ?thesis
    by (intro conjI) (fact status_NewExchange body_NewExchange nf a b c found failed d e)+
qed

text \<open>
  The claim as worded fails in both directions. A container that is found and then
  removed makes the feed-open call fail for an unknown container, and the status is
  500, not 400; a daemon that cannot be reached makes the lookup fail for the
  transport, and the status is 400, not 500.
\<close>

theorem download_failures_counterexample:
  "FindContainer demo_removed (url_id demo_request) = Inr demo_container \<and>
   ContainerLogsBetweenDates demo_removed (url_id demo_request) zero_Time (time_Now demo_removed)
     STDALL = Inl (Failure ''No such container: abc123'') \<and>
   status (downloadLogs demo_removed demo_request (NewExchange True)) = Some 500 \<and>
   status (downloadLogs demo_removed demo_request (NewExchange True)) \<noteq>
     Some (claimed_download_status UnknownContainer) \<and>
   FindContainer demo_unreachable (url_id demo_request) =
     Inl (Failure ''Cannot connect to the Docker daemon'') \<and>
   status (downloadLogs demo_unreachable demo_request (NewExchange True)) = Some 400 \<and>
   status (downloadLogs demo_unreachable demo_request (NewExchange True)) \<noteq>
     Some (claimed_download_status TransportFailure)"
proof -
  have found: "FindContainer demo_removed (url_id demo_request) = Inr demo_container"
    by (simp add: demo_removed_def demo_handler_def demo_request_def)
  have failed: "ContainerLogsBetweenDates demo_removed (url_id demo_request) zero_Time
      (time_Now demo_removed) STDALL = Inl (Failure ''No such container: abc123'')"
    by (simp add: demo_removed_def)
  have a: "status (downloadLogs demo_removed demo_request (NewExchange True)) = Some 500"
    using found failed
    by (simp add: downloadLogs_def Let_def status_gz_Close status_http_Error called_def
        Set_header_def status_NewExchange StatusInternalServerError_def)
  have nf: "FindContainer demo_unreachable (url_id demo_request) =
      Inl (Failure ''Cannot connect to the Docker daemon'')"
    by (simp add: demo_unreachable_def)
  have b: "status (downloadLogs demo_unreachable demo_request (NewExchange True)) = Some 400"
    unfolding downloadLogs_not_found [OF nf]
    by (simp add: status_http_Error called_def status_NewExchange StatusBadRequest_def)
  show ?thesis
    unfolding a b by (simp add: found failed nf)
qed

lemma copy_to_fresh:
  "\<not> wroteHeader zw \<Longrightarrow>
   (case copy_to p zw w of (zw', w') \<Rightarrow> gz_Close zw' w') =
     emit GzipTrailer
       ((if p = [] then (\<lambda>w. w) else emit (GzipData p))
          (emit (GzipHeader (gz_Name zw) (gz_Comment zw) (gz_ModTime zw)) w))"
  by (simp add: copy_to_def gz_Write_def gz_Close_def gz_header_def)

lemma body_emit: "body (emit x w) = body w @ [x]"
  by (simp add: emit_def WriteHeader_def split: option.splits)

lemma headers_emit: "headers (emit x w) = headers w"
  by (simp add: emit_def WriteHeader_def split: option.splits)

lemma downloadLogs_succeeds:
  assumes "FindContainer h (url_id r) = Inr c"
    and "ContainerLogsBetweenDates h (url_id r) zero_Time (time_Now h) STDALL = Inr reader"
  shows "headers (downloadLogs h r w) ''Content-Disposition'' =
           [''attachment; filename='' @ Name c @ ''-'' @ Format_stamp (time_Now h) @ ''.log.gz''] \<and>
         body (downloadLogs h r w) =
           body w @
           [GzipHeader (Name c @ ''-'' @ Format_stamp (time_Now h) @ ''.log'')
              ''Logs generated by Dozzle'' (time_Now h)] @
           (if (if Tty c then reader else StdCopy h reader) = [] then []
            else [GzipData (if Tty c then reader else StdCopy h reader)]) @
           [GzipTrailer]"
proof -
  define w1 where "w1 = called (CallContainerLogsBetweenDates (url_id r) zero_Time (time_Now h) STDALL)
    (Set_header ''Content-Type'' ''application/gzip''
      (Set_header ''Content-Disposition''
        (''attachment; filename='' @ Name c @ ''-'' @ Format_stamp (time_Now h) @ ''.log.gz'')
        (called (CallFindContainer (url_id r)) w)))"
  define zw where "zw = \<lparr>gz_Name = Name c @ ''-'' @ Format_stamp (time_Now h) @ ''.log'',
    gz_Comment = ''Logs generated by Dozzle'', gz_ModTime = time_Now h, wroteHeader = False\<rparr>"
  define p where "p = (if Tty c then reader else StdCopy h reader)"
  have run: "downloadLogs h r w = (case copy_to p zw w1 of (zw', w') \<Rightarrow> gz_Close zw' w')"
    using assms by (simp add: downloadLogs_def Let_def w1_def zw_def p_def gzip_NewWriter_def)
  have w1: "body w1 = body w"
    "headers w1 ''Content-Disposition'' =
       [''attachment; filename='' @ Name c @ ''-'' @ Format_stamp (time_Now h) @ ''.log.gz'']"
    by (simp_all add: w1_def called_def Set_header_def)
  have zw: "\<not> wroteHeader zw" "gz_Name zw = Name c @ ''-'' @ Format_stamp (time_Now h) @ ''.log''"
    "gz_Comment zw = ''Logs generated by Dozzle''" "gz_ModTime zw = time_Now h"
    by (simp_all add: zw_def)
  have "headers (downloadLogs h r w) ''Content-Disposition'' =
      [''attachment; filename='' @ Name c @ ''-'' @ Format_stamp (time_Now h) @ ''.log.gz'']"
    unfolding run copy_to_fresh [OF zw(1)] by (simp add: headers_emit w1)
  moreover have "body (downloadLogs h r w) =
      body w @
      [GzipHeader (Name c @ ''-'' @ Format_stamp (time_Now h) @ ''.log'')
         ''Logs generated by Dozzle'' (time_Now h)] @
      (if p = [] then [] else [GzipData p]) @ [GzipTrailer]"
    unfolding run copy_to_fresh [OF zw(1)] by (simp add: body_emit w1 zw)
  ultimately show ?thesis
    unfolding p_def by simp
qed

text \<open>
  Claim C9, as amended. For a download whose container is found and whose feed opens,
  the response carries the header \<^verbatim>\<open>Content-Disposition\<close> with the value
  \<^verbatim>\<open>attachment; filename={name}-{timestamp}.log.gz\<close>, built from the container's
  name and the current time, and the gzip header carries the metadata name
  \<^verbatim>\<open>{name}-{timestamp}.log\<close>: the same name and time, without the suffix
  \<^verbatim>\<open>.gz\<close>.
\<close>

theorem download_names:
  assumes "FindContainer h (url_id r) = Inr c"
    and "ContainerLogsBetweenDates h (url_id r) zero_Time (time_Now h) STDALL = Inr reader"
  shows "headers (downloadLogs h r w) ''Content-Disposition'' =
           [''attachment; filename='' @ Name c @ ''-'' @ Format_stamp (time_Now h) @ ''.log.gz''] \<and>
         body (downloadLogs h r w) =
           body w @
           [GzipHeader (Name c @ ''-'' @ Format_stamp (time_Now h) @ ''.log'')
              ''Logs generated by Dozzle'' (time_Now h)] @
           (if (if Tty c then reader else StdCopy h reader) = [] then []
            else [GzipData (if Tty c then reader else StdCopy h reader)]) @
           [GzipTrailer]"
  using downloadLogs_succeeds [OF assms] .

lemma demo_download_opened:
  "ContainerLogsBetweenDates demo_handler (url_id demo_request) zero_Time (time_Now demo_handler)
     STDALL = Inr ''feed''"
  by (simp add: demo_handler_def)

lemma demo_download_payload:
  "(if Tty demo_container then ''feed'' else StdCopy demo_handler ''feed'') = ''feed''"
  by (simp add: demo_handler_def demo_container_def)

theorem download_names_witness:
  "FindContainer demo_handler (url_id demo_request) = Inr demo_container \<and>
   ContainerLogsBetweenDates demo_handler (url_id demo_request) zero_Time (time_Now demo_handler)
     STDALL = Inr ''feed'' \<and>
   headers (downloadLogs demo_handler demo_request (NewExchange True)) ''Content-Disposition'' =
     [''attachment; filename=web-2024-03-09T07-05-00.log.gz''] \<and>
   body (downloadLogs demo_handler demo_request (NewExchange True)) =
     [GzipHeader ''web-2024-03-09T07-05-00.log'' ''Logs generated by Dozzle'' demo_now,
      GzipData ''feed'', GzipTrailer]"
proof -
  have now: "time_Now demo_handler = demo_now"
    by (simp add: demo_handler_def)
  note t = download_names [OF demo_found demo_download_opened, of "NewExchange True"]
  have a: "headers (downloadLogs demo_handler demo_request (NewExchange True))
      ''Content-Disposition'' = [''attachment; filename=web-2024-03-09T07-05-00.log.gz'']"
    using conjunct1 [OF t] by (simp add: now demo_stamp Name_demo_container)
  have b: "body (downloadLogs demo_handler demo_request (NewExchange True)) =
     [GzipHeader ''web-2024-03-09T07-05-00.log'' ''Logs generated by Dozzle'' demo_now,
      GzipData ''feed'', GzipTrailer]"
    using conjunct2 [OF t]
    by (simp add: now demo_stamp Name_demo_container demo_download_payload body_NewExchange)
  show ?thesis
    by (intro conjI) (fact demo_found demo_download_opened a b)+
qed

theorem download_names_counterexample:
  "headers (downloadLogs demo_handler demo_request (NewExchange True)) ''Content-Disposition'' =
     [''attachment; filename=web-2024-03-09T07-05-00.log.gz''] \<and>
   hd (body (downloadLogs demo_handler demo_request (NewExchange True))) \<noteq>
     GzipHeader ''web-2024-03-09T07-05-00.log.gz'' ''Logs generated by Dozzle'' demo_now"
proof -
  have now: "time_Now demo_handler = demo_now"
    by (simp add: demo_handler_def)
  note t = downloadLogs_succeeds [OF demo_found demo_download_opened,
      of "NewExchange True"]
  have a: "headers (downloadLogs demo_handler demo_request (NewExchange True))
      ''Content-Disposition'' = [''attachment; filename=web-2024-03-09T07-05-00.log.gz'']"
    using conjunct1 [OF t] by (simp add: now demo_stamp Name_demo_container)
  have b: "hd (body (downloadLogs demo_handler demo_request (NewExchange True))) =
     GzipHeader ''web-2024-03-09T07-05-00.log'' ''Logs generated by Dozzle'' demo_now"
    using conjunct2 [OF t]
    by (simp add: now demo_stamp Name_demo_container body_NewExchange)
  show ?thesis
    unfolding a b by simp
qed

subsection \<open>The bounds of a range query\<close>

lemma fetchLogsBetweenDates_found:
  assumes "Has (query r) ''stdout'' \<or> Has (query r) ''stderr''"
    and "FindContainer h (url_id r) = Inr c"
    and "w1 = called
           (CallContainerLogsBetweenDates (ID c)
              (Parse_dropping_error h (Get (query r) ''from''))
              (Parse_dropping_error h (Get (query r) ''to'')) (stdTypes_of r))
           (called (CallFindContainer (url_id r))
              (Set_header ''Content-Type'' ''application/ld+json; charset=UTF-8'' w))"
  shows "fetchLogsBetweenDates h r w =
     (case ContainerLogsBetweenDates h (ID c)
             (Parse_dropping_error h (Get (query r) ''from''))
             (Parse_dropping_error h (Get (query r) ''to'')) (stdTypes_of r) of
        Inl err \<Rightarrow> http_Error (Error_msg err) StatusInternalServerError w1
      | Inr reader \<Rightarrow>
          fetch_loop h (map snd (Events (NewEventGenerator h reader (Tty c))))
            (called (CallNewEventGenerator reader (Tty c)) w1))"
proof -
  have "stdTypes_of r \<noteq> 0"
    using assms(1) by (simp add: stdTypes_of_eq_0)
  then show ?thesis
    using assms(2,3) by (simp add: fetchLogsBetweenDates_def Let_def split: sum.splits)
qed

text \<open>
  Claim C10. On the range endpoint, for a request with a non-empty mask on a fresh
  response, the status is never 400 whatever the values of \<^verbatim>\<open>from\<close> and \<^verbatim>\<open>to\<close>,
  and once the container is found the feed is opened with the parsed bounds, each
  replaced by the zero time when \<^verbatim>\<open>time.Parse\<close> returns an error.
\<close>

theorem range_bounds_never_rejected:
  assumes "Has (query r) ''stdout'' \<or> Has (query r) ''stderr''"
    and "status w = None"
    and "FindContainer h (url_id r) = Inr c"
  shows "status (fetchLogsBetweenDates h r w) \<noteq> Some 400 \<and>
         (\<exists>rest. calls (fetchLogsBetweenDates h r w) =
            calls w @
            [CallFindContainer (url_id r),
             CallContainerLogsBetweenDates (ID c)
               (case time_Parse h (Get (query r) ''from'') of
                  Inl err \<Rightarrow> zero_Time | Inr t \<Rightarrow> t)
               (case time_Parse h (Get (query r) ''to'') of
                  Inl err \<Rightarrow> zero_Time | Inr t \<Rightarrow> t)
               (stdTypes_of r)] @ rest)"
proof -
  define w1 where "w1 = called
    (CallContainerLogsBetweenDates (ID c)
       (Parse_dropping_error h (Get (query r) ''from''))
       (Parse_dropping_error h (Get (query r) ''to'')) (stdTypes_of r))
    (called (CallFindContainer (url_id r))
       (Set_header ''Content-Type'' ''application/ld+json; charset=UTF-8'' w))"
  note run = fetchLogsBetweenDates_found [OF assms(1,3) w1_def]
  have s1: "status w1 = None"
    and c1: "calls w1 = calls w @
      [CallFindContainer (url_id r),
       CallContainerLogsBetweenDates (ID c)
         (Parse_dropping_error h (Get (query r) ''from''))
         (Parse_dropping_error h (Get (query r) ''to'')) (stdTypes_of r)]"
    using assms(2) by (simp_all add: w1_def called_def Set_header_def)
  show ?thesis
  proof (cases "ContainerLogsBetweenDates h (ID c)
      (Parse_dropping_error h (Get (query r) ''from''))
      (Parse_dropping_error h (Get (query r) ''to'')) (stdTypes_of r)")
    case (Inl err)
    then have eq: "fetchLogsBetweenDates h r w =
        http_Error (Error_msg err) StatusInternalServerError w1"
      using run by simp
    show ?thesis
      unfolding eq
      by (simp add: status_http_Error s1 calls_http_Error c1 StatusInternalServerError_def
          Parse_dropping_error_def)
  next
    case (Inr reader)
    let ?w2 = "called (CallNewEventGenerator reader (Tty c)) w1"
    have eq: "fetchLogsBetweenDates h r w =
        fetch_loop h (map snd (Events (NewEventGenerator h reader (Tty c)))) ?w2"
      using run Inr by simp
    have "status ?w2 = None \<or> status ?w2 = Some 200"
      using s1 by (simp add: called_def)
    from status_fetch_loop [OF this,
        of h "map snd (Events (NewEventGenerator h reader (Tty c)))"]
    have "status (fetchLogsBetweenDates h r w) \<noteq> Some 400"
      unfolding eq by auto
    moreover have "calls (fetchLogsBetweenDates h r w) =
        calls w1 @ [CallNewEventGenerator reader (Tty c)]"
      unfolding eq by (simp add: calls_fetch_loop called_def)
    ultimately show ?thesis
      by (simp add: c1 Parse_dropping_error_def)
  qed
qed

lemma demo_range_flags: "Has (query demo_range) ''stdout'' \<or> Has (query demo_range) ''stderr''"
  by (simp add: demo_range_def Has_def)

lemma demo_range_found: "FindContainer demo_handler (url_id demo_range) = Inr demo_container"
  by (simp add: demo_handler_def demo_range_def)

theorem range_bounds_never_rejected_witness:
  "(Has (query demo_range) ''stdout'' \<or> Has (query demo_range) ''stderr'') \<and>
   status (NewExchange True) = None \<and>
   FindContainer demo_handler (url_id demo_range) = Inr demo_container \<and>
   time_Parse demo_handler (Get (query demo_range) ''from'') = Inl (Failure ''cannot parse'') \<and>
   time_Parse demo_handler (Get (query demo_range) ''to'') = Inl (Failure ''cannot parse'') \<and>
   status (fetchLogsBetweenDates demo_handler demo_range (NewExchange True)) \<noteq> Some 400 \<and>
   (\<exists>rest. calls (fetchLogsBetweenDates demo_handler demo_range (NewExchange True)) =
      [CallFindContainer ''abc123'',
       CallContainerLogsBetweenDates ''abc123'' zero_Time zero_Time 4] @ rest)"
proof -
  have pf: "time_Parse demo_handler (Get (query demo_range) ''from'') =
      Inl (Failure ''cannot parse'')"
    and pt: "time_Parse demo_handler (Get (query demo_range) ''to'') =
      Inl (Failure ''cannot parse'')"
    by (simp_all add: demo_handler_def demo_range_def Get_def)
  have mask: "stdTypes_of demo_range = 4"
    by (simp add: stdTypes_of_def demo_range_def Has_def STDOUT_def STDERR_def)
  have id: "url_id demo_range = ''abc123''"
    by (simp add: demo_range_def)
  note t = range_bounds_never_rejected [OF demo_range_flags status_NewExchange demo_range_found]
  have a: "status (fetchLogsBetweenDates demo_handler demo_range (NewExchange True)) \<noteq> Some 400"
    using conjunct1 [OF t] .
  have b: "\<exists>rest. calls (fetchLogsBetweenDates demo_handler demo_range (NewExchange True)) =
      [CallFindContainer ''abc123'',
       CallContainerLogsBetweenDates ''abc123'' zero_Time zero_Time 4] @ rest"
    using conjunct2 [OF t] by (simp add: pf pt mask id ID_demo_container calls_NewExchange)
  show ?thesis
    by (intro conjI) (fact demo_range_flags status_NewExchange demo_range_found pf pt a b)+
qed

end
